theory Spec2Isabelle
  imports Main
begin

section \<open>Values crossing the program's boundaries\<close>

text \<open>
  Values produced by \<^verbatim>\<open>JSON.parse\<close>. Keys of a parsed object are distinct. Numeric
  payloads are never inspected by \<^verbatim>\<open>app.js\<close>; integers stand for them.
\<close>

datatype json =
    JNull
  | JBool bool
  | JNum int
  | JStr string
  | JArr "json list"
  | JObj "(string \<times> json) list"

text \<open>Exceptions thrown inside a handler, and errors handed to a callback.\<close>

datatype exn = SyntaxError | TypeError | ObfuscateError | ReadError

text \<open>
  Calls that leave the process, in the order they are issued. \<^verbatim>\<open>Database.put\<close> takes the six
  destructured fields of a worker message; a missing field is \<^verbatim>\<open>undefined\<close> (\<open>None\<close>).
\<close>

datatype effect =
    Fork string
  | ReadFile string
  | Unlink string
  | StorePut string string
  | DatabasePut "json option" "json option" "json option" "json option" "json option" "json option"
  | ConsoleLog string
  | ConsoleError string

section \<open>Process-wide state\<close>

text \<open>
  The fields of the \<^verbatim>\<open>ProcessQueue\<close> instance \<^verbatim>\<open>q\<close> (\<open>maxProc\<close>, \<open>q\<close>, \<open>numProc\<close>), the number
  of \<^verbatim>\<open>process.nextTick(this.process.bind(this))\<close> callbacks scheduled and not yet run
  (\<open>ticks\<close>), the files of the working directory \<^verbatim>\<open>temp\<close> keyed by path, the three metrics,
  and the effects issued so far.
\<close>

record world =
  maxProc :: int
  q :: "string list"
  numProc :: int
  ticks :: nat
  files :: "string \<Rightarrow> string option"
  connected :: int
  processed :: nat
  errored :: nat
  effects :: "effect list"

definition tempPath :: string where
  "tempPath = ''temp''"

definition logPath :: "string \<Rightarrow> string" where
  "logPath clientid = tempPath @ ''/'' @ clientid"

definition emit :: "effect \<Rightarrow> world \<Rightarrow> world" where
  "emit e w = w\<lparr>effects := effects w @ [e]\<rparr>"

text \<open>\<^verbatim>\<open>new ProcessQueue()\<close> on a machine with \<open>cpus\<close> entries in \<^verbatim>\<open>os.cpus()\<close>, in an empty
  working directory.\<close>

definition init_world :: "nat \<Rightarrow> world" where
  "init_world cpus =
     \<lparr>maxProc = int cpus, q = [], numProc = 0, ticks = 0, files = (\<lambda>_. None),
      connected = 0, processed = 0, errored = 0, effects = []\<rparr>"

section \<open>ProcessQueue\<close>

text \<open>\<^verbatim>\<open>enqueue(clientid)\<close>, lines 46-53.\<close>

definition enqueue :: "string \<Rightarrow> world \<Rightarrow> world" where
  "enqueue clientid w =
     (let w1 = w\<lparr>q := q w @ [clientid]\<rparr> in
      if numProc w1 < maxProc w1 then w1\<lparr>ticks := ticks w1 + 1\<rparr>
      else emit (ConsoleLog ''process Q too long:'') w1)"

text \<open>
  \<^verbatim>\<open>process()\<close>, lines 54-93. \<^verbatim>\<open>shift()\<close> removes the head also when it is falsy (the empty
  string); the three handlers registered on the child are \<open>on_exit\<close>, \<open>on_worker_message\<close>
  and \<open>on_error\<close> below, with \<open>clientid\<close> the identifier the child was forked for.
\<close>

definition process :: "world \<Rightarrow> world" where
  "process w =
     (case q w of
        [] \<Rightarrow> w
      | clientid # rest \<Rightarrow>
          (let w1 = w\<lparr>q := rest\<rparr> in
           if clientid = [] then w1
           else
             (let w2 = emit (Fork clientid) w1;
                  w3 = w2\<lparr>numProc := numProc w2 + 1\<rparr>
              in if numProc w3 > 10 then emit (ConsoleLog ''process Q:'') w3 else w3)))"

text \<open>One scheduled \<^verbatim>\<open>nextTick\<close> callback runs; with none scheduled nothing happens.\<close>

definition tick :: "world \<Rightarrow> world" where
  "tick w = (if ticks w = 0 then w else process (w\<lparr>ticks := ticks w - 1\<rparr>))"

text \<open>The \<^verbatim>\<open>'exit'\<close> handler up to the start of the asynchronous read, lines 58-68. The exit
  code is \<open>None\<close> when the child was ended by a signal.\<close>

definition on_exit :: "string \<Rightarrow> int option \<Rightarrow> world \<Rightarrow> world" where
  "on_exit clientid code w =
     (let w1 = w\<lparr>numProc := numProc w - 1\<rparr>;
          w2 = emit (ConsoleLog ''done'') w1;
          w3 = (if code = Some 0 then w2\<lparr>processed := processed w2 + 1\<rparr>
                else w2\<lparr>errored := errored w2 + 1\<rparr>);
          w4 = (if numProc w3 < 0 then w3\<lparr>numProc := 0\<rparr> else w3);
          w5 = (if numProc w4 < maxProc w4 then w4\<lparr>ticks := ticks w4 + 1\<rparr> else w4)
      in emit (ReadFile (logPath clientid)) w5)"

text \<open>The callback of \<^verbatim>\<open>fs.readFile\<close>, lines 68-78, given the error or the data read.\<close>

definition on_readFile :: "string \<Rightarrow> exn + string \<Rightarrow> world \<Rightarrow> world" where
  "on_readFile clientid res w =
     (case res of
        Inl err \<Rightarrow> emit (ConsoleError ''Could not open file for store upload'') w
      | Inr data \<Rightarrow>
          (let w1 = emit (Unlink (logPath clientid)) w;
               w2 = w1\<lparr>files := (files w1)(logPath clientid := None)\<rparr>
           in emit (StorePut clientid data) w2))"

text \<open>What \<^verbatim>\<open>fs.readFile\<close> hands to its callback for a path of the working directory.\<close>

definition readFile :: "(string \<Rightarrow> string option) \<Rightarrow> string \<Rightarrow> exn + string" where
  "readFile fs path = (case fs path of None \<Rightarrow> Inl ReadError | Some data \<Rightarrow> Inr data)"

text \<open>Property access \<^verbatim>\<open>msg.key\<close> as destructuring does it: \<^verbatim>\<open>undefined\<close> where the value
  has no such own property.\<close>

fun property :: "json \<Rightarrow> string \<Rightarrow> json option" where
  "property (JObj kvs) key = map_of kvs key"
| "property _ key = None"

text \<open>The \<^verbatim>\<open>'message'\<close> handler, lines 80-83. Destructuring \<^verbatim>\<open>null\<close> throws; nothing
  catches it.\<close>

definition on_worker_message :: "json \<Rightarrow> world \<Rightarrow> exn + world" where
  "on_worker_message msg w =
     (if msg = JNull then Inl TypeError
      else Inr (emit (DatabasePut (property msg ''url'') (property msg ''clientid'') (property msg ''connid'')
                        (property msg ''clientFeatures'') (property msg ''connectionFeatures'')
                        (property msg ''streamFeatures'')) w))"

text \<open>The \<^verbatim>\<open>'error'\<close> handler, lines 84-88.\<close>

definition on_error :: "string \<Rightarrow> world \<Rightarrow> world" where
  "on_error clientid w =
     (let w1 = w\<lparr>numProc := numProc w - 1\<rparr>;
          w2 = emit (ConsoleLog ''failed to spawn, rescheduling'') w1
      in w2\<lparr>q := q w2 @ [clientid]\<rparr>)"

text \<open>The events the pool reacts to, and the pool run over a sequence of them.\<close>

datatype event =
    Enqueue string
  | Tick
  | Exit string "int option"
  | ReadFileDone string
  | SpawnError string

fun step :: "event \<Rightarrow> world \<Rightarrow> world" where
  "step (Enqueue clientid) w = enqueue clientid w"
| "step Tick w = tick w"
| "step (Exit clientid code) w = on_exit clientid code w"
| "step (ReadFileDone clientid) w = on_readFile clientid (readFile (files w) (logPath clientid)) w"
| "step (SpawnError clientid) w = on_error clientid w"

fun run :: "event list \<Rightarrow> world \<Rightarrow> world" where
  "run [] w = w"
| "run (e # es) w = run es (step e w)"




section \<open>Collaborators outside the file\<close>

text \<open>
  \<^verbatim>\<open>JSON.parse\<close> and \<^verbatim>\<open>JSON.stringify\<close> of the runtime, \<^verbatim>\<open>require('./obfuscator')\<close> (it
  rewrites its argument in place, so it is given as the value left behind, or the exception it
  throws) and \<^verbatim>\<open>cityLookup.get\<close> are parameters of the model.
\<close>

record env =
  JSON_parse :: "string \<Rightarrow> exn + json"
  JSON_stringify :: "json \<Rightarrow> string"
  obfuscate :: "json \<Rightarrow> exn + json"
  cityLookup_get :: "string \<Rightarrow> json"

text \<open>The parts of the upgrade request the connection handler reads; an absent header is
  \<^verbatim>\<open>undefined\<close>.\<close>

record upgradeReq =
  url :: string
  origin :: "string option"
  user_agent :: "string option"
  x_forwarded_for :: "string option"
  remoteAddress :: "string option"

definition newline :: string where
  "newline = [CHR 0x0A]"

section \<open>getRequestAddress\<close>

text \<open>A header value is decoded as latin1, one character per byte. Of those 256 characters
  \<^verbatim>\<open>String.prototype.trim\<close> strips the white space TAB, VT, FF, SP and NBSP (\<open>0xA0\<close>) and
  the line terminators LF and CR.\<close>

definition is_space :: "char \<Rightarrow> bool" where
  "is_space c =
     (c \<in> set [CHR 0x20, CHR 0x09, CHR 0x0A, CHR 0x0B, CHR 0x0C, CHR 0x0D, CHR 0xA0])"

definition trim :: "string \<Rightarrow> string" where
  "trim s = rev (dropWhile is_space (rev (dropWhile is_space s)))"

text \<open>\<^verbatim>\<open>tokens[tokens.length - 1]\<close> for \<^verbatim>\<open>tokens = s.split(",")\<close>.\<close>

definition last_token :: "string \<Rightarrow> string" where
  "last_token s = rev (takeWhile (\<lambda>c. c \<noteq> CHR '','') (rev s))"

definition truthy :: "string option \<Rightarrow> bool" where
  "truthy v = (case v of None \<Rightarrow> False | Some s \<Rightarrow> s \<noteq> [])"

definition getRequestAddress :: "upgradeReq \<Rightarrow> string option" where
  "getRequestAddress request =
     (case x_forwarded_for request of
        None \<Rightarrow> remoteAddress request
      | Some forwardedFor \<Rightarrow>
          if forwardedFor \<noteq> [] then Some (trim (last_token forwardedFor))
          else remoteAddress request)"

section \<open>One connection\<close>

text \<open>
  The variables the handlers of one connection close over: \<open>clientid\<close>, \<open>numberOfEvents\<close>,
  whether the variable \<open>tempStream\<close> still holds the stream (it is set to \<^verbatim>\<open>null\<close> on
  close), the chunks handed to the stream's \<^verbatim>\<open>write\<close> in order, whether \<^verbatim>\<open>end()\<close> was
  called on it, and the address of the location callback given to \<^verbatim>\<open>process.nextTick\<close> while
  it has not run.
\<close>

record session =
  clientid :: string
  numberOfEvents :: nat
  tempStream :: bool
  written :: "string list"
  ended :: bool
  location :: "string option"

type_synonym conn = "session \<times> world"

text \<open>String concatenation with a possibly undefined operand.\<close>

definition to_string :: "string option \<Rightarrow> string" where
  "to_string v = (case v of None \<Rightarrow> ''undefined'' | Some s \<Rightarrow> s)"

definition optional_field :: "string \<Rightarrow> string option \<Rightarrow> (string \<times> json) list" where
  "optional_field key v = (case v of None \<Rightarrow> [] | Some s \<Rightarrow> [(key, JStr s)])"

text \<open>The object \<open>meta\<close>, lines 184-191, without the properties whose value is
  \<^verbatim>\<open>undefined\<close> (\<^verbatim>\<open>JSON.stringify\<close> leaves them out).\<close>

definition meta :: "upgradeReq \<Rightarrow> int \<Rightarrow> json" where
  "meta upgradeReq now =
     JObj ([(''path'', JStr (url upgradeReq))]
           @ optional_field ''origin'' (origin upgradeReq)
           @ [(''url'', JStr (to_string (origin upgradeReq) @ url upgradeReq))]
           @ optional_field ''userAgent'' (user_agent upgradeReq)
           @ [(''time'', JNum now), (''fileFormat'', JNum 2)])"

definition meta_line :: "env \<Rightarrow> upgradeReq \<Rightarrow> int \<Rightarrow> string" where
  "meta_line env upgradeReq now = JSON_stringify env (meta upgradeReq now) @ newline"

definition location_line :: "env \<Rightarrow> string \<Rightarrow> int \<Rightarrow> string" where
  "location_line env address now =
     JSON_stringify env (JArr [JStr ''location'', JNull, cityLookup_get env address, JNum now])
     @ newline"

definition close_record :: "env \<Rightarrow> int \<Rightarrow> string" where
  "close_record env now = JSON_stringify env (JArr [JStr ''close'', JNull, JNull, JNum now])"

text \<open>The synchronous part of the \<^verbatim>\<open>'connection'\<close> handler, lines 164-204, for the
  identifier \<open>uuid\<close> drawn by \<^verbatim>\<open>uuid.v4()\<close> and the clock reading \<open>now\<close>.\<close>

definition on_connection :: "env \<Rightarrow> upgradeReq \<Rightarrow> string \<Rightarrow> int \<Rightarrow> world \<Rightarrow> conn" where
  "on_connection env upgradeReq uuid now w =
     (let w1 = w\<lparr>connected := connected w + 1\<rparr>;
          w2 = w1\<lparr>files := (files w1)(logPath uuid \<mapsto> [])\<rparr>;
          address = getRequestAddress upgradeReq;
          s = \<lparr>clientid = uuid, numberOfEvents = 0, tempStream = True,
               written = [meta_line env upgradeReq now], ended = False,
               location = (if truthy address then address else None)\<rparr>
      in (s, emit (ConsoleLog ''connected'') w2))"

text \<open>The callback of lines 196-201, when it runs at clock reading \<open>now\<close>.\<close>

definition on_location :: "env \<Rightarrow> int \<Rightarrow> conn \<Rightarrow> conn" where
  "on_location env now c =
     (case c of (s, w) \<Rightarrow>
        (case location s of
           None \<Rightarrow> (s, w)
         | Some address \<Rightarrow>
             (let s1 = s\<lparr>location := None\<rparr> in
              if tempStream s1
              then (s1\<lparr>written := written s1 @ [location_line env address now]\<rparr>, w)
              else (s1, w))))"

text \<open>\<^verbatim>\<open>data[0]\<close>: a \<^verbatim>\<open>TypeError\<close> on \<^verbatim>\<open>null\<close>, otherwise the element, the first
  character, the property named \<^verbatim>\<open>0\<close>, or \<^verbatim>\<open>undefined\<close>.\<close>

fun index0 :: "json \<Rightarrow> exn + json option" where
  "index0 JNull = Inl TypeError"
| "index0 (JArr []) = Inr None"
| "index0 (JArr (x # xs)) = Inr (Some x)"
| "index0 (JStr []) = Inr None"
| "index0 (JStr (c # cs)) = Inr (Some (JStr [c]))"
| "index0 (JObj kvs) = Inr (map_of kvs ''0'')"
| "index0 (JBool b) = Inr None"
| "index0 (JNum n) = Inr None"

text \<open>The case labels of the \<^verbatim>\<open>switch\<close>, lines 212-217.\<close>

definition sensitive_tags :: "string list" where
  "sensitive_tags =
     [''getUserMedia'', ''getUserMediaOnSuccess'', ''getUserMediaOnFailure'',
      ''navigator.mediaDevices.getUserMedia'', ''navigator.mediaDevices.getUserMediaOnSuccess'',
      ''navigator.mediaDevices.getUserMediaOnFailure'']"

definition is_sensitive :: "json option \<Rightarrow> bool" where
  "is_sensitive tag = (case tag of Some (JStr t) \<Rightarrow> t \<in> set sensitive_tags | _ \<Rightarrow> False)"

text \<open>\<^verbatim>\<open>tempStream.write(chunk)\<close>: a \<^verbatim>\<open>TypeError\<close> when the variable is \<^verbatim>\<open>null\<close>.\<close>

definition stream_write :: "string \<Rightarrow> session \<Rightarrow> session \<times> exn option" where
  "stream_write chunk s =
     (if tempStream s then (s\<lparr>written := written s @ [chunk]\<rparr>, None)
      else (s, Some TypeError))"

text \<open>The body of the \<^verbatim>\<open>try\<close>, lines 208-224: the closure variables it leaves, and the
  exception that ended it, if any.\<close>

definition message_body :: "env \<Rightarrow> string \<Rightarrow> session \<Rightarrow> session \<times> exn option" where
  "message_body env msg s =
     (case JSON_parse env msg of
        Inl e \<Rightarrow> (s, Some e)
      | Inr data \<Rightarrow>
          (let s1 = s\<lparr>numberOfEvents := numberOfEvents s + 1\<rparr> in
           case index0 data of
             Inl e \<Rightarrow> (s1, Some e)
           | Inr tag \<Rightarrow>
               if is_sensitive tag
               then stream_write (JSON_stringify env data @ newline) s1
               else
                 (case obfuscate env data of
                    Inl e \<Rightarrow> (s1, Some e)
                  | Inr data' \<Rightarrow> stream_write (JSON_stringify env data' @ newline) s1)))"

text \<open>The \<^verbatim>\<open>'message'\<close> handler, lines 206-228. A handler's result is \<open>Inl\<close> for an exception
  that leaves it uncaught.\<close>

definition on_message :: "env \<Rightarrow> string \<Rightarrow> conn \<Rightarrow> exn + conn" where
  "on_message env msg c =
     (case c of (s, w) \<Rightarrow>
        (case message_body env msg s of
           (s', None) \<Rightarrow> Inr (s', w)
         | (s', Some e) \<Rightarrow> Inr (s', emit (ConsoleError ''error while processing'') w)))"

text \<open>The \<^verbatim>\<open>'close'\<close> handler, lines 230-235.\<close>

definition on_close :: "env \<Rightarrow> int \<Rightarrow> conn \<Rightarrow> exn + conn" where
  "on_close env now c =
     (case c of (s, w) \<Rightarrow>
        (let w1 = w\<lparr>connected := connected w - 1\<rparr> in
         case stream_write (close_record env now) s of
           (s1, Some e) \<Rightarrow> Inl e
         | (s1, None) \<Rightarrow> Inr (s1\<lparr>ended := True, tempStream := False\<rparr>, w1)))"

text \<open>The \<^verbatim>\<open>'finish'\<close> handler, lines 174-182.\<close>

definition on_finish :: "session \<Rightarrow> world \<Rightarrow> world" where
  "on_finish s w =
     (if numberOfEvents s > 0 then enqueue (clientid s) w
      else
        (let w1 = emit (Unlink (logPath (clientid s))) w
         in w1\<lparr>files := (files w1)(logPath (clientid s) := None)\<rparr>))"

text \<open>The stream emits \<^verbatim>\<open>'finish'\<close> once \<^verbatim>\<open>end()\<close> was called and every chunk written to it
  has reached the file.\<close>

definition stream_finish :: "conn \<Rightarrow> conn" where
  "stream_finish c =
     (case c of (s, w) \<Rightarrow>
        if ended s
        then (s, on_finish s (w\<lparr>files := (files w)(logPath (clientid s) \<mapsto> concat (written s))\<rparr>))
        else (s, w))"

text \<open>What happens on one connection after it was accepted, and a sequence of it.\<close>

datatype session_event =
    Message string
  | LocationTick int
  | Close int
  | Finish

fun session_step :: "env \<Rightarrow> session_event \<Rightarrow> conn \<Rightarrow> exn + conn" where
  "session_step env (Message msg) c = on_message env msg c"
| "session_step env (LocationTick now) c = Inr (on_location env now c)"
| "session_step env (Close now) c = on_close env now c"
| "session_step env Finish c = Inr (stream_finish c)"

fun session_run :: "env \<Rightarrow> session_event list \<Rightarrow> conn \<Rightarrow> exn + conn" where
  "session_run env [] c = Inr c"
| "session_run env (e # es) c =
     (case session_step env e c of Inl x \<Rightarrow> Inl x | Inr c' \<Rightarrow> session_run env es c')"

section \<open>What a finished log is expected to hold\<close>

text \<open>The lines one inbound message adds to the log: none when parsing, indexing or
  redaction throws, otherwise the parsed value itself for a sensitive tag and the redacted
  value for any other.\<close>

definition logged_lines :: "env \<Rightarrow> string \<Rightarrow> string list" where
  "logged_lines env msg =
     (case JSON_parse env msg of
        Inl e \<Rightarrow> []
      | Inr data \<Rightarrow>
          (case index0 data of
             Inl e \<Rightarrow> []
           | Inr tag \<Rightarrow>
               if is_sensitive tag then [JSON_stringify env data @ newline]
               else (case obfuscate env data of
                       Inl e \<Rightarrow> []
                     | Inr data' \<Rightarrow> [JSON_stringify env data' @ newline])))"

text \<open>What one inbound message adds to the event counter.\<close>

definition counted :: "env \<Rightarrow> string \<Rightarrow> nat" where
  "counted env msg = (case JSON_parse env msg of Inl e \<Rightarrow> 0 | Inr data \<Rightarrow> 1)"

text \<open>The events of a connection that is still open.\<close>

fun streaming :: "session_event \<Rightarrow> bool" where
  "streaming (Message msg) = True"
| "streaming (LocationTick now) = True"
| "streaming (Close now) = False"
| "streaming Finish = False"

text \<open>What can still happen on a connection between its close and the \<^verbatim>\<open>'finish'\<close> of its
  stream: the location callback.\<close>

fun location_tick :: "session_event \<Rightarrow> bool" where
  "location_tick (LocationTick now) = True"
| "location_tick (Message msg) = False"
| "location_tick (Close now) = False"
| "location_tick Finish = False"

text \<open>The records between the metadata line and the close record, for the pending location
  address \<open>loc\<close> and the events handled while the connection was open.\<close>

fun expected_records :: "env \<Rightarrow> string option \<Rightarrow> session_event list \<Rightarrow> string list" where
  "expected_records env loc [] = []"
| "expected_records env loc (Message msg # evs) =
     logged_lines env msg @ expected_records env loc evs"
| "expected_records env loc (LocationTick now # evs) =
     (case loc of None \<Rightarrow> [] | Some address \<Rightarrow> [location_line env address now])
     @ expected_records env None evs"
| "expected_records env loc (ev # evs) = expected_records env loc evs"

fun expected_count :: "env \<Rightarrow> session_event list \<Rightarrow> nat" where
  "expected_count env [] = 0"
| "expected_count env (Message msg # evs) = counted env msg + expected_count env evs"
| "expected_count env (ev # evs) = expected_count env evs"

definition scheduled_location :: "upgradeReq \<Rightarrow> string option" where
  "scheduled_location upgradeReq =
     (if truthy (getRequestAddress upgradeReq) then getRequestAddress upgradeReq else None)"

text \<open>The log as the specification words it: the metadata line, the received events in
  receipt order, the close record, and nothing else.\<close>

definition spec_log :: "env \<Rightarrow> upgradeReq \<Rightarrow> int \<Rightarrow> json list \<Rightarrow> int \<Rightarrow> string" where
  "spec_log env upgradeReq opened events closed =
     concat ([meta_line env upgradeReq opened]
             @ map (\<lambda>data. JSON_stringify env data @ newline) events
             @ [close_record env closed])"

section \<open>A sample environment\<close>

text \<open>A serialiser for the values of \<open>json\<close>, a parser that knows four messages, a redaction
  that blanks the string payloads of an array, and a one-entry location table. They stand in
  for the collaborators where a concrete run is evaluated.\<close>

fun digits :: "nat \<Rightarrow> string" where
  "digits n =
     (if n < 10 then [''0123456789'' ! n]
      else digits (n div 10) @ [''0123456789'' ! (n mod 10)])"

declare digits.simps [simp del]

definition show_int :: "int \<Rightarrow> string" where
  "show_int i = (if i < 0 then CHR ''-'' # digits (nat (- i)) else digits (nat i))"

definition quote :: "string \<Rightarrow> string" where
  "quote s =
     [CHR 0x22]
     @ concat (map (\<lambda>c. if c = CHR 0x22 \<or> c = CHR 0x5C then [CHR 0x5C, c] else [c]) s)
     @ [CHR 0x22]"

fun join :: "string list \<Rightarrow> string" where
  "join [] = []"
| "join [x] = x"
| "join (x # y # ys) = x @ '','' @ join (y # ys)"

fun stringify :: "json \<Rightarrow> string" where
  "stringify JNull = ''null''"
| "stringify (JBool b) = (if b then ''true'' else ''false'')"
| "stringify (JNum n) = show_int n"
| "stringify (JStr s) = quote s"
| "stringify (JArr xs) = ''['' @ join (map stringify xs) @ '']''"
| "stringify (JObj kvs) =
     ''{'' @ join (map (\<lambda>(k, v). quote k @ '':'' @ stringify v) kvs) @ ''}''"

definition msg_getUserMedia :: string where
  \<open>msg_getUserMedia = ''["getUserMedia",null,{"audio":true}]''\<close>

definition msg_custom :: string where
  \<open>msg_custom = ''["custom",null,"secret"]''\<close>

definition msg_null :: string where
  "msg_null = ''null''"

definition msg_broken :: string where
  \<open>msg_broken = ''["getUserMedia",''\<close>

definition data_getUserMedia :: json where
  "data_getUserMedia = JArr [JStr ''getUserMedia'', JNull, JObj [(''audio'', JBool True)]]"

definition data_custom :: json where
  "data_custom = JArr [JStr ''custom'', JNull, JStr ''secret'']"

definition sample_parse :: "string \<Rightarrow> exn + json" where
  "sample_parse msg =
     (if msg = msg_getUserMedia then Inr data_getUserMedia
      else if msg = msg_custom then Inr data_custom
      else if msg = msg_null then Inr JNull
      else Inl SyntaxError)"

fun redact :: "json \<Rightarrow> json" where
  "redact (JStr s) = JStr ''x''"
| "redact v = v"

fun sample_obfuscate :: "json \<Rightarrow> exn + json" where
  "sample_obfuscate (JArr (tag # cid # payload)) = Inr (JArr (tag # cid # map redact payload))"
| "sample_obfuscate data = Inr data"

definition sample_city :: "string \<Rightarrow> json" where
  "sample_city address =
     (if address = ''203.0.113.7'' then JObj [(''city'', JStr ''Berlin'')] else JNull)"

definition sample_env :: env where
  "sample_env =
     \<lparr>JSON_parse = sample_parse, JSON_stringify = stringify,
      obfuscate = sample_obfuscate, cityLookup_get = sample_city\<rparr>"

definition sample_req :: upgradeReq where
  "sample_req =
     \<lparr>url = ''/trace'', origin = Some ''https://example.org'', user_agent = Some ''UA'',
      x_forwarded_for = None, remoteAddress = Some ''203.0.113.7''\<rparr>"

definition quiet_req :: upgradeReq where
  "quiet_req =
     \<lparr>url = ''/trace'', origin = None, user_agent = None,
      x_forwarded_for = None, remoteAddress = None\<rparr>"

text \<open>A connection that is open and has received nothing, its location callback still
  pending.\<close>

definition open_session :: session where
  "open_session =
     \<lparr>clientid = ''s1'', numberOfEvents = 0, tempStream = True,
      written = [''{}'' @ newline], ended = False, location = Some ''203.0.113.7''\<rparr>"

text \<open>A world whose working directory holds the finished log of \<open>s1\<close>, and a result message
  of its worker.\<close>

definition stored_world :: world where
  "stored_world = (init_world 2)\<lparr>files := (files (init_world 2))(logPath ''s1'' \<mapsto> ''log'')\<rparr>"

definition sample_result :: json where
  "sample_result =
     JObj [(''url'', JStr ''https://example.org/trace''), (''clientid'', JStr ''s1''),
           (''connid'', JStr ''pc0'')]"

section \<open>Projections of the handlers\<close>

lemma emit_simps:
  "effects (emit e w) = effects w @ [e]"
  "maxProc (emit e w) = maxProc w"
  "q (emit e w) = q w"
  "numProc (emit e w) = numProc w"
  "ticks (emit e w) = ticks w"
  "files (emit e w) = files w"
  "connected (emit e w) = connected w"
  "processed (emit e w) = processed w"
  "errored (emit e w) = errored w"
  by (simp_all add: emit_def)

lemma on_exit_effects:
  "effects (on_exit cid code w) = effects w @ [ConsoleLog ''done'', ReadFile (logPath cid)]"
  by (simp add: on_exit_def Let_def emit_simps)

lemma on_exit_files: "files (on_exit cid code w) = files w"
  by (simp add: on_exit_def Let_def emit_simps)

lemma on_exit_metrics:
  "processed (on_exit cid code w) = processed w + (if code = Some 0 then 1 else 0)"
  "errored (on_exit cid code w) = errored w + (if code = Some 0 then 0 else 1)"
  by (simp_all add: on_exit_def Let_def emit_simps)

lemma on_exit_numProc:
  "numProc (on_exit cid code w) = max 0 (numProc w - 1)"
  by (simp add: on_exit_def Let_def emit_simps)




lemma enqueue_pool:
  "q (enqueue cid w) = q w @ [cid]"
  "numProc (enqueue cid w) = numProc w"
  "maxProc (enqueue cid w) = maxProc w"
  "ticks (enqueue cid w) = (if numProc w < maxProc w then ticks w + 1 else ticks w)"
  by (simp_all add: enqueue_def Let_def emit_simps)

lemma enqueue_files: "files (enqueue cid w) = files w"
  by (simp add: enqueue_def Let_def emit_simps)

lemma process_pool:
  "q (process w) = tl (q w)"
  "numProc (process w) = (if q w = [] \<or> hd (q w) = [] then numProc w else numProc w + 1)"
  "maxProc (process w) = maxProc w"
  "ticks (process w) = ticks w"
  by (simp_all add: process_def Let_def emit_simps split: list.split)


lemma on_error_pool:
  "q (on_error cid w) = q w @ [cid]"
  "numProc (on_error cid w) = numProc w - 1"
  "maxProc (on_error cid w) = maxProc w"
  "ticks (on_error cid w) = ticks w"
  by (simp_all add: on_error_def Let_def emit_simps)

lemma on_error_effects:
  "effects (on_error cid w) = effects w @ [ConsoleLog ''failed to spawn, rescheduling'']"
  by (simp add: on_error_def Let_def emit_simps)

lemma init_world_pool:
  "q (init_world n) = []" "numProc (init_world n) = 0" "maxProc (init_world n) = int n"
  "ticks (init_world n) = 0"
  by (simp_all add: init_world_def)

lemma on_readFile_Inl:
  "effects (on_readFile cid (Inl err) w) =
     effects w @ [ConsoleError ''Could not open file for store upload'']"
  "files (on_readFile cid (Inl err) w) = files w"
  by (simp_all add: on_readFile_def emit_simps)

lemma on_readFile_Inr:
  "effects (on_readFile cid (Inr data) w) =
     effects w @ [Unlink (logPath cid), StorePut cid data]"
  "files (on_readFile cid (Inr data) w) = (files w)(logPath cid := None)"
  by (simp_all add: on_readFile_def Let_def emit_simps)

lemma on_readFile_metrics:
  "processed (on_readFile cid res w) = processed w"
  "errored (on_readFile cid res w) = errored w"
  by (simp_all add: on_readFile_def Let_def emit_simps split: sum.split)

lemma stream_write_fields:
  "clientid (fst (stream_write chunk s)) = clientid s"
  "numberOfEvents (fst (stream_write chunk s)) = numberOfEvents s"
  "tempStream (fst (stream_write chunk s)) = tempStream s"
  "ended (fst (stream_write chunk s)) = ended s"
  "location (fst (stream_write chunk s)) = location s"
  by (simp_all add: stream_write_def)

lemma stream_write_written:
  "written (fst (stream_write chunk s)) = (if tempStream s then written s @ [chunk] else written s)"
  "snd (stream_write chunk s) = (if tempStream s then None else Some TypeError)"
  by (simp_all add: stream_write_def)

lemma message_body_fields:
  "clientid (fst (message_body env msg s)) = clientid s"
  "tempStream (fst (message_body env msg s)) = tempStream s"
  "ended (fst (message_body env msg s)) = ended s"
  "location (fst (message_body env msg s)) = location s"
  by (simp_all add: message_body_def Let_def stream_write_fields split: sum.split)

lemma message_body_counter:
  "numberOfEvents (fst (message_body env msg s)) = numberOfEvents s + counted env msg"
  by (simp add: message_body_def counted_def Let_def stream_write_fields split: sum.split)

lemma message_body_written:
  "written (fst (message_body env msg s)) =
     (if tempStream s then written s @ logged_lines env msg else written s)"
  by (simp add: message_body_def logged_lines_def Let_def stream_write_written split: sum.split)

lemma message_body_thrown:
  "snd (message_body env msg s) = Some e \<Longrightarrow> written (fst (message_body env msg s)) = written s"
  by (auto simp: message_body_def Let_def stream_write_def split: sum.splits if_splits)

lemma on_message_result:
  "on_message env msg (s, w) =
     Inr (fst (message_body env msg s),
          if snd (message_body env msg s) = None then w
          else emit (ConsoleError ''error while processing'') w)"
  by (cases "message_body env msg s") (auto simp: on_message_def split: option.split)


lemma on_location_fields:
  "clientid (fst (on_location env now (s, w))) = clientid s"
  "numberOfEvents (fst (on_location env now (s, w))) = numberOfEvents s"
  "tempStream (fst (on_location env now (s, w))) = tempStream s"
  "ended (fst (on_location env now (s, w))) = ended s"
  "location (fst (on_location env now (s, w))) = None"
  "snd (on_location env now (s, w)) = w"
  by (simp_all add: on_location_def Let_def split: option.split)

lemma on_location_written:
  "written (fst (on_location env now (s, w))) =
     (case location s of
        None \<Rightarrow> written s
      | Some address \<Rightarrow>
          if tempStream s then written s @ [location_line env address now] else written s)"
  by (simp add: on_location_def Let_def split: option.split)

lemma session_run_append:
  "session_run env (xs @ ys) c =
     (case session_run env xs c of Inl x \<Rightarrow> Inl x | Inr c' \<Rightarrow> session_run env ys c')"
  by (induction xs arbitrary: c) (auto split: sum.split)

lemma streaming_run:
  assumes "list_all streaming evs" and "tempStream s"
  shows "\<exists>s' w'. session_run env evs (s, w) = Inr (s', w')
           \<and> tempStream s' \<and> clientid s' = clientid s \<and> ended s' = ended s
           \<and> written s' = written s @ expected_records env (location s) evs
           \<and> numberOfEvents s' = numberOfEvents s + expected_count env evs
           \<and> q w' = q w \<and> ticks w' = ticks w \<and> files w' = files w
           \<and> numProc w' = numProc w \<and> maxProc w' = maxProc w"
  using assms
proof (induction evs arbitrary: s w)
  case Nil
  then show ?case by simp
next
  case (Cons ev evs)
  show ?case
  proof (cases ev)
    case (Message msg)
    define s1 where "s1 = fst (message_body env msg s)"
    define w1 where "w1 = (if snd (message_body env msg s) = None then w
          else emit (ConsoleError ''error while processing'') w)"
    have st: "session_step env ev (s, w) = Inr (s1, w1)"
      by (simp add: Message on_message_result s1_def w1_def)
    have f: "tempStream s1" "clientid s1 = clientid s" "ended s1 = ended s"
      "location s1 = location s"
      "written s1 = written s @ logged_lines env msg"
      "numberOfEvents s1 = numberOfEvents s + counted env msg"
      using Cons.prems(2)
      by (simp_all add: s1_def message_body_fields message_body_written message_body_counter)
    have g: "q w1 = q w" "ticks w1 = ticks w" "files w1 = files w" "numProc w1 = numProc w"
      "maxProc w1 = maxProc w"
      by (simp_all add: w1_def emit_simps)
    from Cons.prems(1) have "list_all streaming evs" by simp
    from Cons.IH[OF this f(1), of w1] obtain s' w' where
      r: "session_run env evs (s1, w1) = Inr (s', w')"
         "tempStream s'" "clientid s' = clientid s1" "ended s' = ended s1"
         "written s' = written s1 @ expected_records env (location s1) evs"
         "numberOfEvents s' = numberOfEvents s1 + expected_count env evs"
         "q w' = q w1" "ticks w' = ticks w1" "files w' = files w1"
         "numProc w' = numProc w1" "maxProc w' = maxProc w1"
      by blast
    have "session_run env (ev # evs) (s, w) = Inr (s', w')"
      by (simp add: st r(1))
    then show ?thesis
      using r f g by (simp add: Message)
  next
    case (LocationTick now)
    define s1 where "s1 = fst (on_location env now (s, w))"
    have c: "on_location env now (s, w) = (s1, w)"
      by (simp add: s1_def prod_eq_iff on_location_fields)
    have st: "session_step env ev (s, w) = Inr (s1, w)"
      by (simp add: LocationTick c)
    have f: "tempStream s1" "clientid s1 = clientid s" "ended s1 = ended s"
      "location s1 = None"
      "written s1 = written s @ (case location s of None \<Rightarrow> [] | Some address \<Rightarrow> [location_line env address now])"
      "numberOfEvents s1 = numberOfEvents s"
      using Cons.prems(2)
      by (simp_all add: s1_def on_location_fields on_location_written split: option.split)
    from Cons.prems(1) have "list_all streaming evs" by simp
    from Cons.IH[OF this f(1), of w] obtain s' w' where
      r: "session_run env evs (s1, w) = Inr (s', w')"
         "tempStream s'" "clientid s' = clientid s1" "ended s' = ended s1"
         "written s' = written s1 @ expected_records env (location s1) evs"
         "numberOfEvents s' = numberOfEvents s1 + expected_count env evs"
         "q w' = q w" "ticks w' = ticks w" "files w' = files w"
         "numProc w' = numProc w" "maxProc w' = maxProc w"
      by blast
    have "session_run env (ev # evs) (s, w) = Inr (s', w')"
      by (simp add: st r(1))
    then show ?thesis
      using r f by (simp add: LocationTick)
  next
    case (Close now)
    with Cons.prems(1) show ?thesis by simp
  next
    case Finish
    with Cons.prems(1) show ?thesis by simp
  qed
qed

lemma on_connection_session:
  "clientid (fst (on_connection env req cid t0 w)) = cid"
  "numberOfEvents (fst (on_connection env req cid t0 w)) = 0"
  "tempStream (fst (on_connection env req cid t0 w))"
  "written (fst (on_connection env req cid t0 w)) = [meta_line env req t0]"
  "ended (fst (on_connection env req cid t0 w)) = False"
  "location (fst (on_connection env req cid t0 w)) = scheduled_location req"
  by (simp_all add: on_connection_def Let_def scheduled_location_def)

lemma on_connection_world:
  "q (snd (on_connection env req cid t0 w)) = q w"
  "ticks (snd (on_connection env req cid t0 w)) = ticks w"
  "numProc (snd (on_connection env req cid t0 w)) = numProc w"
  "maxProc (snd (on_connection env req cid t0 w)) = maxProc w"
  "files (snd (on_connection env req cid t0 w)) = (files w)(logPath cid \<mapsto> [])"
  by (simp_all add: on_connection_def Let_def emit_simps)

lemma on_close_open:
  assumes "tempStream s"
  shows "\<exists>s1. on_close env t (s, w) = Inr (s1, w\<lparr>connected := connected w - 1\<rparr>)
           \<and> written s1 = written s @ [close_record env t]
           \<and> \<not> tempStream s1 \<and> ended s1
           \<and> clientid s1 = clientid s \<and> numberOfEvents s1 = numberOfEvents s
           \<and> location s1 = location s"
  using assms by (simp add: on_close_def stream_write_def Let_def)

lemma on_close_released:
  "\<not> tempStream s \<Longrightarrow> on_close env t (s, w) = Inl TypeError"
  by (simp add: on_close_def stream_write_def Let_def)

lemma on_close_Inr:
  assumes "on_close env t (s, w) = Inr (s1, w1)"
  shows "tempStream s" "w1 = w\<lparr>connected := connected w - 1\<rparr>"
    "written s1 = written s @ [close_record env t]"
    "\<not> tempStream s1" "ended s1" "clientid s1 = clientid s"
    "numberOfEvents s1 = numberOfEvents s" "location s1 = location s"
proof -
  show o: "tempStream s"
    using assms on_close_released[of s env t w] by auto
  from on_close_open[OF o, of env t w] assms
  show "w1 = w\<lparr>connected := connected w - 1\<rparr>"
    "written s1 = written s @ [close_record env t]"
    "\<not> tempStream s1" "ended s1" "clientid s1 = clientid s"
    "numberOfEvents s1 = numberOfEvents s" "location s1 = location s"
    by auto
qed

lemma on_finish_empty:
  assumes "numberOfEvents s = 0"
  shows "q (on_finish s w) = q w" "ticks (on_finish s w) = ticks w"
    "numProc (on_finish s w) = numProc w"
    "files (on_finish s w) = (files w)(logPath (clientid s) := None)"
    "effects (on_finish s w) = effects w @ [Unlink (logPath (clientid s))]"
  using assms by (simp_all add: on_finish_def Let_def emit_simps)

lemma on_finish_events:
  assumes "0 < numberOfEvents s"
  shows "on_finish s w = enqueue (clientid s) w"
  using assms by (simp add: on_finish_def)

lemma stream_finish_ended:
  assumes "ended s"
  shows "stream_finish (s, w) =
     (s, on_finish s (w\<lparr>files := (files w)(logPath (clientid s) \<mapsto> concat (written s))\<rparr>))"
  using assms by (simp add: stream_finish_def)

lemma closed_session:
  assumes "list_all streaming evs"
  shows "\<exists>s w'. session_run env (evs @ [Close t]) (on_connection env req cid t0 w) = Inr (s, w')
           \<and> ended s \<and> \<not> tempStream s \<and> clientid s = cid
           \<and> written s = [meta_line env req t0]
                 @ expected_records env (scheduled_location req) evs @ [close_record env t]
           \<and> numberOfEvents s = expected_count env evs
           \<and> q w' = q w \<and> ticks w' = ticks w \<and> numProc w' = numProc w
           \<and> maxProc w' = maxProc w"
proof -
  define s0 where "s0 = fst (on_connection env req cid t0 w)"
  define w0 where "w0 = snd (on_connection env req cid t0 w)"
  have c0: "on_connection env req cid t0 w = (s0, w0)"
    by (simp add: s0_def w0_def)
  have o: "tempStream s0"
    by (simp add: s0_def on_connection_session)
  from streaming_run[OF assms o, of env w0] obtain s1 w1 where
    r: "session_run env evs (s0, w0) = Inr (s1, w1)" "tempStream s1"
       "clientid s1 = clientid s0" "ended s1 = ended s0"
       "written s1 = written s0 @ expected_records env (location s0) evs"
       "numberOfEvents s1 = numberOfEvents s0 + expected_count env evs"
       "q w1 = q w0" "ticks w1 = ticks w0" "numProc w1 = numProc w0" "maxProc w1 = maxProc w0"
    by blast
  from on_close_open[OF r(2), of env t w1] obtain s2 where
    c: "on_close env t (s1, w1) = Inr (s2, w1\<lparr>connected := connected w1 - 1\<rparr>)"
       "written s2 = written s1 @ [close_record env t]" "ended s2"
       "clientid s2 = clientid s1" "numberOfEvents s2 = numberOfEvents s1"
       "\<not> tempStream s2"
    by blast
  have "session_run env (evs @ [Close t]) (on_connection env req cid t0 w)
          = Inr (s2, w1\<lparr>connected := connected w1 - 1\<rparr>)"
    by (simp add: session_run_append c0 r(1) c(1))
  moreover have "written s2 = [meta_line env req t0]
                 @ expected_records env (scheduled_location req) evs @ [close_record env t]"
    by (simp add: c(2) r(5) s0_def on_connection_session)
  moreover have "numberOfEvents s2 = expected_count env evs" "clientid s2 = cid"
    by (simp_all add: c r s0_def on_connection_session)
  moreover have "q (w1\<lparr>connected := connected w1 - 1\<rparr>) = q w"
     "ticks (w1\<lparr>connected := connected w1 - 1\<rparr>) = ticks w"
     "numProc (w1\<lparr>connected := connected w1 - 1\<rparr>) = numProc w"
     "maxProc (w1\<lparr>connected := connected w1 - 1\<rparr>) = maxProc w"
    by (simp_all add: r w0_def on_connection_world)
  ultimately show ?thesis
    using c(3) c(6) by blast
qed

lemma released_run:
  assumes "list_all location_tick late" and "\<not> tempStream s"
  shows "\<exists>s'. session_run env late (s, w) = Inr (s', w)
           \<and> written s' = written s \<and> numberOfEvents s' = numberOfEvents s
           \<and> ended s' = ended s \<and> clientid s' = clientid s"
  using assms
proof (induction late arbitrary: s)
  case Nil
  then show ?case by simp
next
  case (Cons ev late)
  from Cons.prems(1) obtain now where ev: "ev = LocationTick now"
    by (cases ev) simp_all
  define s1 where "s1 = fst (on_location env now (s, w))"
  have c: "on_location env now (s, w) = (s1, w)"
    by (simp add: s1_def prod_eq_iff on_location_fields)
  have f: "\<not> tempStream s1" "written s1 = written s" "numberOfEvents s1 = numberOfEvents s"
    "ended s1 = ended s" "clientid s1 = clientid s"
    using Cons.prems(2)
    by (simp_all add: s1_def on_location_fields on_location_written split: option.split)
  from Cons.prems(1) have "list_all location_tick late" by simp
  from Cons.IH[OF this f(1)] obtain s' where
    r: "session_run env late (s1, w) = Inr (s', w)"
       "written s' = written s1" "numberOfEvents s' = numberOfEvents s1"
       "ended s' = ended s1" "clientid s' = clientid s1"
    by blast
  have "session_run env (ev # late) (s, w) = Inr (s', w)"
    by (simp add: ev c r(1))
  then show ?case
    using r f by simp
qed

lemma finished_session:
  assumes "list_all streaming evs"
  shows "\<exists>s w'. session_run env (evs @ [Close t, Finish]) (on_connection env req cid t0 w)
             = Inr (s, w')
           \<and> numberOfEvents s = expected_count env evs
           \<and> q w' = (if 0 < expected_count env evs then q w @ [cid] else q w)
           \<and> files w' (logPath cid) =
               (if 0 < expected_count env evs
                then Some (concat ([meta_line env req t0]
                       @ expected_records env (scheduled_location req) evs
                       @ [close_record env t]))
                else None)"
proof -
  from closed_session[OF assms, of env t req cid t0 w] obtain s w1 where
    r: "session_run env (evs @ [Close t]) (on_connection env req cid t0 w) = Inr (s, w1)"
       "ended s" "clientid s = cid"
       "written s = [meta_line env req t0]
                 @ expected_records env (scheduled_location req) evs @ [close_record env t]"
       "numberOfEvents s = expected_count env evs" "q w1 = q w"
    by blast
  define w2 where
    "w2 = w1\<lparr>files := (files w1)(logPath (clientid s) \<mapsto> concat (written s))\<rparr>"
  have f: "stream_finish (s, w1) = (s, on_finish s w2)"
    by (simp add: stream_finish_ended[OF r(2)] w2_def)
  have "evs @ [Close t, Finish] = (evs @ [Close t]) @ [Finish]" by simp
  then have run: "session_run env (evs @ [Close t, Finish]) (on_connection env req cid t0 w)
      = Inr (s, on_finish s w2)"
    using r(1) f by (simp only: session_run_append) simp
  have a: "q (on_finish s w2) = (if 0 < expected_count env evs then q w @ [cid] else q w)"
  proof (cases "0 < expected_count env evs")
    case True
    then show ?thesis
      using r by (simp add: on_finish_events enqueue_pool w2_def)
  next
    case False
    then show ?thesis
      using r by (simp add: on_finish_empty w2_def)
  qed
  have b: "files (on_finish s w2) (logPath cid) =
               (if 0 < expected_count env evs
                then Some (concat ([meta_line env req t0]
                       @ expected_records env (scheduled_location req) evs
                       @ [close_record env t]))
                else None)"
  proof (cases "0 < expected_count env evs")
    case True
    then show ?thesis
      using r by (simp add: on_finish_events enqueue_files w2_def)
  next
    case False
    then show ?thesis
      using r by (simp add: on_finish_empty w2_def)
  qed
  from run a b r(5) show ?thesis by blast
qed

lemma finished_session_late:
  assumes "list_all streaming evs" and "list_all location_tick late"
  shows "\<exists>s w'. session_run env (evs @ [Close t] @ late @ [Finish])
               (on_connection env req cid t0 w)
             = Inr (s, w')
           \<and> numberOfEvents s = expected_count env evs
           \<and> q w' = (if 0 < expected_count env evs then q w @ [cid] else q w)
           \<and> files w' (logPath cid) =
               (if 0 < expected_count env evs
                then Some (concat ([meta_line env req t0]
                       @ expected_records env (scheduled_location req) evs
                       @ [close_record env t]))
                else None)"
proof -
  from closed_session[OF assms(1), of env t req cid t0 w] obtain s0 w1 where
    r0: "session_run env (evs @ [Close t]) (on_connection env req cid t0 w) = Inr (s0, w1)"
       "ended s0" "\<not> tempStream s0" "clientid s0 = cid"
       "written s0 = [meta_line env req t0]
                 @ expected_records env (scheduled_location req) evs @ [close_record env t]"
       "numberOfEvents s0 = expected_count env evs" "q w1 = q w"
    by blast
  from released_run[OF assms(2) r0(3), of env w1] obtain s where
    l: "session_run env late (s0, w1) = Inr (s, w1)"
       "written s = written s0" "numberOfEvents s = numberOfEvents s0"
       "ended s = ended s0" "clientid s = clientid s0"
    by blast
  have r: "session_run env ((evs @ [Close t]) @ late) (on_connection env req cid t0 w)
             = Inr (s, w1)"
       "ended s" "clientid s = cid"
       "written s = [meta_line env req t0]
                 @ expected_records env (scheduled_location req) evs @ [close_record env t]"
       "numberOfEvents s = expected_count env evs" "q w1 = q w"
    using r0 l by (simp_all only: session_run_append sum.case)
  define w2 where
    "w2 = w1\<lparr>files := (files w1)(logPath (clientid s) \<mapsto> concat (written s))\<rparr>"
  have f: "stream_finish (s, w1) = (s, on_finish s w2)"
    by (simp add: stream_finish_ended[OF r(2)] w2_def)
  have "evs @ [Close t] @ late @ [Finish] = ((evs @ [Close t]) @ late) @ [Finish]" by simp
  then have run: "session_run env (evs @ [Close t] @ late @ [Finish])
        (on_connection env req cid t0 w)
      = Inr (s, on_finish s w2)"
    using r(1) f by (simp only: session_run_append[of env "(evs @ [Close t]) @ late"]) simp
  have a: "q (on_finish s w2) = (if 0 < expected_count env evs then q w @ [cid] else q w)"
  proof (cases "0 < expected_count env evs")
    case True
    then show ?thesis
      using r by (simp add: on_finish_events enqueue_pool w2_def)
  next
    case False
    then show ?thesis
      using r by (simp add: on_finish_empty w2_def)
  qed
  have b: "files (on_finish s w2) (logPath cid) =
               (if 0 < expected_count env evs
                then Some (concat ([meta_line env req t0]
                       @ expected_records env (scheduled_location req) evs
                       @ [close_record env t]))
                else None)"
  proof (cases "0 < expected_count env evs")
    case True
    then show ?thesis
      using r by (simp add: on_finish_events enqueue_files w2_def)
  next
    case False
    then show ?thesis
      using r by (simp add: on_finish_empty w2_def)
  qed
  from run a b r(5) show ?thesis by blast
qed

section \<open>The sample environment evaluated\<close>

lemmas sample_defs =
  sample_env_def sample_req_def quiet_req_def sample_parse_def sample_city_def
  msg_getUserMedia_def msg_custom_def msg_null_def msg_broken_def
  data_getUserMedia_def data_custom_def

lemmas line_defs =
  meta_line_def meta_def optional_field_def to_string_def location_line_def close_record_def
  newline_def quote_def show_int_def digits.simps

lemma sample_meta_line:
  \<open>meta_line sample_env sample_req 1 =
     ''{"path":"/trace","origin":"https://example.org","url":"https://example.org/trace","userAgent":"UA","time":1,"fileFormat":2}'' @ newline\<close>
  by (simp add: sample_defs line_defs)

lemma sample_location_line:
  \<open>location_line sample_env ''203.0.113.7'' 2 = ''["location",null,{"city":"Berlin"},2]'' @ newline\<close>
  by (simp add: sample_defs line_defs)

lemma sample_close_record:
  \<open>close_record sample_env 3 = ''["close",null,null,3]''\<close>
  by (simp add: sample_defs line_defs)

lemma sample_scheduled_location:
  "scheduled_location sample_req = Some ''203.0.113.7''"
  "scheduled_location quiet_req = None"
  by (simp_all add: scheduled_location_def getRequestAddress_def truthy_def sample_defs)

text \<open>A forwarded-for header whose last token is a lone NBSP resolves to the empty string, so
  no location callback is scheduled; white space around the last token, NBSP included, is
  not part of the address looked up.\<close>

lemma forwarded_for_trimmed:
  "scheduled_location (sample_req\<lparr>x_forwarded_for := Some (''1.2.3.4,'' @ [CHR 0xA0])\<rparr>) = None"
  "scheduled_location
     (sample_req\<lparr>x_forwarded_for := Some (''10.0.0.1, 203.0.113.7'' @ [CHR 0xA0])\<rparr>)
   = Some ''203.0.113.7''"
  by (simp_all add: scheduled_location_def getRequestAddress_def truthy_def trim_def
      last_token_def is_space_def sample_req_def)

lemma sample_logged_lines:
  \<open>logged_lines sample_env msg_getUserMedia = [''["getUserMedia",null,{"audio":true}]'' @ newline]\<close>
  \<open>logged_lines sample_env msg_custom = [''["custom",null,"x"]'' @ newline]\<close>
  "logged_lines sample_env msg_null = []"
  "logged_lines sample_env msg_broken = []"
  by (simp_all add: logged_lines_def is_sensitive_def sensitive_tags_def sample_defs line_defs)

lemma sample_counted:
  "counted sample_env msg_getUserMedia = 1"
  "counted sample_env msg_custom = 1"
  "counted sample_env msg_null = 1"
  "counted sample_env msg_broken = 0"
  by (simp_all add: counted_def sample_defs)

section \<open>The pool counter\<close>


lemma on_exit_numProc_nonneg: "0 \<le> numProc (on_exit cid code w)"
  by (simp add: on_exit_numProc)

lemma process_within_capacity:
  "numProc w < maxProc w \<Longrightarrow> numProc (process w) \<le> maxProc (process w)"
  by (simp add: process_pool)






section \<open>The session log\<close>

text \<open>
  Claim C2, as worded: at the moment of enqueue the log is the metadata line, the received
  events in receipt order and the close record (\<open>spec_log\<close>). A connection with a remote
  address that sends one \<^verbatim>\<open>getUserMedia\<close> event is enqueued with a log of four records: the
  location record stands between the metadata line and the event.
\<close>

theorem C2_location_record_counterexample:
  \<open>map_sum id (\<lambda>c. (q (snd c), files (snd c) (logPath ''s1'')))
     (session_run sample_env [LocationTick 2, Message msg_getUserMedia, Close 3, Finish]
        (on_connection sample_env sample_req ''s1'' 1 (init_world 2)))
   = Inr ([''s1''],
          Some (''{"path":"/trace","origin":"https://example.org","url":"https://example.org/trace","userAgent":"UA","time":1,"fileFormat":2}'' @ newline
                @ ''["location",null,{"city":"Berlin"},2]'' @ newline
                @ ''["getUserMedia",null,{"audio":true}]'' @ newline
                @ ''["close",null,null,3]''))
   \<and> ''{"path":"/trace","origin":"https://example.org","url":"https://example.org/trace","userAgent":"UA","time":1,"fileFormat":2}'' @ newline
                @ ''["location",null,{"city":"Berlin"},2]'' @ newline
                @ ''["getUserMedia",null,{"audio":true}]'' @ newline
                @ ''["close",null,null,3]''
     \<noteq> spec_log sample_env sample_req 1 [data_getUserMedia] 3\<close>
proof -
  have s: "list_all streaming [LocationTick 2, Message msg_getUserMedia]"
    by simp
  from finished_session[OF s, of sample_env 3 sample_req "''s1''" 1 "init_world 2"]
  obtain s w' where
    r: "session_run sample_env [LocationTick 2, Message msg_getUserMedia, Close 3, Finish]
          (on_connection sample_env sample_req ''s1'' 1 (init_world 2)) = Inr (s, w')"
       "q w' = [''s1'']"
       "files w' (logPath ''s1'') =
          Some (concat ([meta_line sample_env sample_req 1]
                  @ expected_records sample_env (scheduled_location sample_req)
                      [LocationTick 2, Message msg_getUserMedia]
                  @ [close_record sample_env 3]))"
    by (auto simp: sample_counted init_world_pool)
  have l: \<open>concat ([meta_line sample_env sample_req 1]
                  @ expected_records sample_env (scheduled_location sample_req)
                      [LocationTick 2, Message msg_getUserMedia]
                  @ [close_record sample_env 3])
     = ''{"path":"/trace","origin":"https://example.org","url":"https://example.org/trace","userAgent":"UA","time":1,"fileFormat":2}'' @ newline
                @ ''["location",null,{"city":"Berlin"},2]'' @ newline
                @ ''["getUserMedia",null,{"audio":true}]'' @ newline
                @ ''["close",null,null,3]''\<close>
    by (simp add: sample_meta_line sample_location_line sample_close_record
        sample_scheduled_location sample_logged_lines)
  have n: \<open>''{"path":"/trace","origin":"https://example.org","url":"https://example.org/trace","userAgent":"UA","time":1,"fileFormat":2}'' @ newline
                @ ''["location",null,{"city":"Berlin"},2]'' @ newline
                @ ''["getUserMedia",null,{"audio":true}]'' @ newline
                @ ''["close",null,null,3]''
     \<noteq> spec_log sample_env sample_req 1 [data_getUserMedia] 3\<close>
    by (simp add: spec_log_def sample_meta_line sample_close_record)
       (simp add: sample_defs line_defs)
  show ?thesis
    using r l n by simp
qed

text \<open>
  Claim C2, amended: for every session whose event counter is positive when the connection
  closes, the identifier is enqueued and the log file then holds the metadata line first; then,
  in the order they were handled, the location record (when the address lookup was scheduled
  and ran before the close) and one line for each inbound message that was processed without an
  exception (the parsed event for a sensitive tag, the redacted event otherwise); then exactly
  one close record, last. A message whose parsing or processing throws adds no line.
\<close>

theorem C2_log_at_enqueue:
  assumes "list_all streaming evs" and "list_all location_tick late"
    and "0 < expected_count env evs"
  shows "\<exists>s w'. session_run env (evs @ [Close t] @ late @ [Finish])
               (on_connection env req cid t0 w)
             = Inr (s, w')
           \<and> numberOfEvents s = expected_count env evs
           \<and> q w' = q w @ [cid]
           \<and> files w' (logPath cid) =
               Some (concat ([meta_line env req t0]
                       @ expected_records env (scheduled_location req) evs
                       @ [close_record env t]))"
  using finished_session_late[OF assms(1) assms(2), of env t req cid t0 w] assms(3) by simp

text \<open>C2 at a session with a broken message and a redacted event, whose location callback
  runs after the close.\<close>

theorem C2_log_at_enqueue_witness:
  "list_all streaming [Message msg_broken, Message msg_custom]
   \<and> list_all location_tick [LocationTick 4]
   \<and> 0 < expected_count sample_env [Message msg_broken, Message msg_custom]
   \<and> (\<exists>s w'. session_run sample_env
                 ([Message msg_broken, Message msg_custom] @ [Close 3] @ [LocationTick 4]
                  @ [Finish])
                 (on_connection sample_env sample_req ''s1'' 1 (init_world 2)) = Inr (s, w')
           \<and> numberOfEvents s
               = expected_count sample_env [Message msg_broken, Message msg_custom]
           \<and> q w' = q (init_world 2) @ [''s1'']
           \<and> files w' (logPath ''s1'') =
               Some (concat ([meta_line sample_env sample_req 1]
                       @ expected_records sample_env (scheduled_location sample_req)
                           [Message msg_broken, Message msg_custom]
                       @ [close_record sample_env 3])))"
proof -
  have a: "list_all streaming [Message msg_broken, Message msg_custom]"
    by simp
  have l: "list_all location_tick [LocationTick 4]"
    by simp
  have b: "0 < expected_count sample_env [Message msg_broken, Message msg_custom]"
    by (simp add: sample_counted)
  from C2_log_at_enqueue[OF a l b] a l b show ?thesis
    by blast
qed

text \<open>
  Claim C3: a session whose event counter is zero when the connection closes is not enqueued
  (the pending queue and the scheduled dispatches are unchanged) and its log file is unlinked
  when the stream finishes.
\<close>

theorem C3_empty_session_discarded:
  assumes "on_close env t (s, w) = Inr (s1, w1)" and "numberOfEvents s = 0"
  shows "q (snd (stream_finish (s1, w1))) = q w1
       \<and> ticks (snd (stream_finish (s1, w1))) = ticks w1
       \<and> files (snd (stream_finish (s1, w1))) (logPath (clientid s)) = None
       \<and> effects (snd (stream_finish (s1, w1))) = effects w1 @ [Unlink (logPath (clientid s))]"
proof -
  note c = on_close_Inr[OF assms(1)]
  have z: "numberOfEvents s1 = 0"
    using c(7) assms(2) by simp
  show ?thesis
    by (simp add: stream_finish_ended[OF c(5)] on_finish_empty[OF z] c(6))
qed

text \<open>C3 at a connection closed before any message arrived.\<close>

theorem C3_empty_session_discarded_witness:
  "on_close sample_env 3 (open_session, init_world 2)
     = Inr (open_session\<lparr>written := written open_session @ [close_record sample_env 3],
                         ended := True, tempStream := False\<rparr>,
            (init_world 2)\<lparr>connected := - 1\<rparr>)
   \<and> numberOfEvents open_session = 0
   \<and> q (snd (stream_finish
         (open_session\<lparr>written := written open_session @ [close_record sample_env 3],
                         ended := True, tempStream := False\<rparr>,
          (init_world 2)\<lparr>connected := - 1\<rparr>))) = []
   \<and> files (snd (stream_finish
         (open_session\<lparr>written := written open_session @ [close_record sample_env 3],
                         ended := True, tempStream := False\<rparr>,
          (init_world 2)\<lparr>connected := - 1\<rparr>))) (logPath ''s1'') = None"
proof -
  have a: "on_close sample_env 3 (open_session, init_world 2)
     = Inr (open_session\<lparr>written := written open_session @ [close_record sample_env 3],
                         ended := True, tempStream := False\<rparr>,
            (init_world 2)\<lparr>connected := - 1\<rparr>)"
    by (simp add: on_close_def stream_write_def open_session_def init_world_def)
  have b: "numberOfEvents open_session = 0"
    by (simp add: open_session_def)
  from C3_empty_session_discarded[OF a b] a b show ?thesis
    by (simp add: open_session_def init_world_def)
qed

section \<open>Inbound messages\<close>



text \<open>
  Claim C7, as worded: the counter is incremented for every inbound message, before parsing,
  so at close it equals the number of messages received. One message that is not JSON is
  received and the counter at close is zero: \<^verbatim>\<open>numberOfEvents++\<close> follows \<^verbatim>\<open>JSON.parse\<close>.
\<close>

theorem C7_unparseable_not_counted_counterexample:
  "map_sum id (\<lambda>c. numberOfEvents (fst c))
     (session_run sample_env [Message msg_broken, Close 3]
        (on_connection sample_env sample_req ''s1'' 1 (init_world 2)))
   = Inr 0
   \<and> map_sum id (\<lambda>c. numberOfEvents (fst c))
     (session_run sample_env [Message msg_broken, Close 3]
        (on_connection sample_env sample_req ''s1'' 1 (init_world 2)))
   \<noteq> Inr (length [msg_broken])"
proof -
  have a: "list_all streaming [Message msg_broken]"
    by simp
  from closed_session[OF a, of sample_env 3 sample_req "''s1''" 1 "init_world 2"]
  show ?thesis
    by (auto simp: sample_counted)
qed

text \<open>
  Claim C7, amended: the counter is incremented for every inbound message that parses as JSON,
  after parsing and before classification, so the counter at close equals the number of
  inbound messages that parsed, whether or not their later processing threw; a message that
  does not parse is not counted.
\<close>

theorem C7_counter_counts_parsed_messages:
  assumes "list_all streaming evs"
  shows "map_sum id (\<lambda>c. numberOfEvents (fst c))
           (session_run env (evs @ [Close t]) (on_connection env req cid t0 w))
         = Inr (expected_count env evs)"
  using closed_session[OF assms, of env t req cid t0 w] by auto

text \<open>C7 at three messages: one that does not parse, \<^verbatim>\<open>null\<close> (parsed, then a
  \<^verbatim>\<open>TypeError\<close>) and a \<^verbatim>\<open>custom\<close> event.\<close>

theorem C7_counter_counts_parsed_messages_witness:
  "list_all streaming [Message msg_broken, Message msg_null, Message msg_custom]
   \<and> map_sum id (\<lambda>c. numberOfEvents (fst c))
        (session_run sample_env ([Message msg_broken, Message msg_null, Message msg_custom] @ [Close 3])
           (on_connection sample_env sample_req ''s1'' 1 (init_world 2)))
      = Inr 2"
proof -
  have a: "list_all streaming [Message msg_broken, Message msg_null, Message msg_custom]"
    by simp
  from C7_counter_counts_parsed_messages[OF a, of sample_env 3 sample_req "''s1''" 1 "init_world 2"] a
  show ?thesis
    by (simp add: sample_counted)
qed

text \<open>
  Claim C8: when processing an inbound message throws, in \<^verbatim>\<open>JSON.parse\<close> or after it, the
  handler returns normally, the error is logged and nothing is appended to the log.
\<close>

theorem C8_malformed_message_dropped:
  assumes "snd (message_body env msg s) = Some e"
  shows "\<exists>s'. on_message env msg (s, w)
                 = Inr (s', emit (ConsoleError ''error while processing'') w)
           \<and> written s' = written s"
  using assms by (simp add: on_message_result message_body_thrown)

text \<open>C8 at a message that is not JSON and at \<^verbatim>\<open>null\<close>.\<close>

theorem C8_malformed_message_dropped_witness:
  "snd (message_body sample_env msg_broken open_session) = Some SyntaxError
   \<and> snd (message_body sample_env msg_null open_session) = Some TypeError
   \<and> (\<exists>s'. on_message sample_env msg_broken (open_session, init_world 2)
                 = Inr (s', emit (ConsoleError ''error while processing'') (init_world 2))
           \<and> written s' = written open_session)
   \<and> (\<exists>s'. on_message sample_env msg_null (open_session, init_world 2)
                 = Inr (s', emit (ConsoleError ''error while processing'') (init_world 2))
           \<and> written s' = written open_session)"
proof -
  have a: "snd (message_body sample_env msg_broken open_session) = Some SyntaxError"
    by (simp add: message_body_def sample_defs)
  have b: "snd (message_body sample_env msg_null open_session) = Some TypeError"
    by (simp add: message_body_def sample_defs)
  from C8_malformed_message_dropped[OF a, of "init_world 2"]
       C8_malformed_message_dropped[OF b, of "init_world 2"] a b
  show ?thesis
    by blast
qed

text \<open>
  Claim C9: a location callback that runs after the close handler writes nothing and reports
  nothing, so the close record stays the last record; one that runs while the stream is held
  appends the location record.
\<close>

theorem C9_location_after_close_dropped:
  "(on_close env t (s, w) = Inr c1 \<longrightarrow>
      written (fst (on_location env t' c1)) = written s @ [close_record env t]
      \<and> snd (on_location env t' c1) = snd c1)
   \<and> (tempStream s \<and> location s = Some address \<longrightarrow>
      written (fst (on_location env t' (s, w))) = written s @ [location_line env address t']
      \<and> snd (on_location env t' (s, w)) = w)"
proof (intro conjI impI)
  assume c: "on_close env t (s, w) = Inr c1"
  obtain s1 w1 where c1: "c1 = (s1, w1)"
    by (cases c1)
  note f = on_close_Inr[OF c[unfolded c1]]
  show "written (fst (on_location env t' c1)) = written s @ [close_record env t]"
    using f(3,4) by (simp add: c1 on_location_written split: option.split)
  show "snd (on_location env t' c1) = snd c1"
    by (simp add: c1 on_location_fields)
next
  assume o: "tempStream s \<and> location s = Some address"
  then show "written (fst (on_location env t' (s, w)))
       = written s @ [location_line env address t']"
    by (simp add: on_location_written)
  show "snd (on_location env t' (s, w)) = w"
    by (simp add: on_location_fields)
qed

text \<open>C9 at a connection closed before, and one closed after, the location callback.\<close>

theorem C9_location_after_close_dropped_witness:
  \<open>on_close sample_env 3 (open_session, init_world 2)
     = Inr (open_session\<lparr>written := written open_session @ [close_record sample_env 3],
                         ended := True, tempStream := False\<rparr>,
            (init_world 2)\<lparr>connected := - 1\<rparr>)
   \<and> written (fst (on_location sample_env 4
         (open_session\<lparr>written := written open_session @ [close_record sample_env 3],
                         ended := True, tempStream := False\<rparr>,
          (init_world 2)\<lparr>connected := - 1\<rparr>)))
       = [''{}'' @ newline, ''["close",null,null,3]'']
   \<and> tempStream open_session \<and> location open_session = Some ''203.0.113.7''
   \<and> written (fst (on_location sample_env 2 (open_session, init_world 2)))
       = [''{}'' @ newline, ''["location",null,{"city":"Berlin"},2]'' @ newline]\<close>
proof -
  have a: "on_close sample_env 3 (open_session, init_world 2)
     = Inr (open_session\<lparr>written := written open_session @ [close_record sample_env 3],
                         ended := True, tempStream := False\<rparr>,
            (init_world 2)\<lparr>connected := - 1\<rparr>)"
    by (simp add: on_close_def stream_write_def open_session_def init_world_def)
  have b: "tempStream open_session \<and> location open_session = Some ''203.0.113.7''"
    by (simp add: open_session_def)
  from C9_location_after_close_dropped[where env = sample_env and t = 3 and s = open_session
         and w = "init_world 2" and t' = 4]
       C9_location_after_close_dropped[where env = sample_env and s = open_session
         and w = "init_world 2" and t' = 2 and address = "''203.0.113.7''"]
       a b
  show ?thesis
    by (simp add: sample_close_record sample_location_line open_session_def)
qed

section \<open>Worker exit and spawn failure\<close>

text \<open>
  Claim C5: whatever the exit status, a result message the worker sent is handed to
  \<^verbatim>\<open>Database.put\<close>, and at exit the log file, when it can be read, is unlinked and handed in
  full to \<^verbatim>\<open>Store.put\<close>; the exit counts as processed for status zero and as errored
  otherwise.
\<close>

theorem C5_exit_forwards_log_for_any_status:
  assumes "files w (logPath cid) = Some data" and "msg \<noteq> JNull"
  shows "\<exists>w1. on_worker_message msg w = Inr w1 \<and>
     (let w2 = on_exit cid code w1; w3 = step (ReadFileDone cid) w2 in
      effects w3 = effects w @
         [DatabasePut (property msg ''url'') (property msg ''clientid'') (property msg ''connid'')
            (property msg ''clientFeatures'') (property msg ''connectionFeatures'')
            (property msg ''streamFeatures''),
          ConsoleLog ''done'', ReadFile (logPath cid), Unlink (logPath cid),
          StorePut cid data]
      \<and> files w3 (logPath cid) = None
      \<and> processed w3 = processed w + (if code = Some 0 then 1 else 0)
      \<and> errored w3 = errored w + (if code = Some 0 then 0 else 1))"
proof -
  define w1 where "w1 = emit (DatabasePut (property msg ''url'') (property msg ''clientid'')
      (property msg ''connid'') (property msg ''clientFeatures'')
      (property msg ''connectionFeatures'') (property msg ''streamFeatures'')) w"
  define w2 where "w2 = on_exit cid code w1"
  have m: "on_worker_message msg w = Inr w1"
    using assms(2) by (simp add: on_worker_message_def w1_def)
  have r: "readFile (files w2) (logPath cid) = Inr data"
    using assms(1) by (simp add: readFile_def w2_def on_exit_files w1_def emit_simps)
  have s: "step (ReadFileDone cid) w2 = on_readFile cid (Inr data) w2"
    by (simp add: r)
  have e: "effects (on_readFile cid (Inr data) w2) = effects w @
         [DatabasePut (property msg ''url'') (property msg ''clientid'') (property msg ''connid'')
            (property msg ''clientFeatures'') (property msg ''connectionFeatures'')
            (property msg ''streamFeatures''),
          ConsoleLog ''done'', ReadFile (logPath cid), Unlink (logPath cid),
          StorePut cid data]"
    by (simp add: on_readFile_Inr w2_def on_exit_effects w1_def emit_simps)
  have f: "files (on_readFile cid (Inr data) w2) (logPath cid) = None"
    by (simp add: on_readFile_Inr)
  have p: "processed (on_readFile cid (Inr data) w2)
             = processed w + (if code = Some 0 then 1 else 0)"
    by (simp add: on_readFile_metrics w2_def on_exit_metrics w1_def emit_simps)
  have x: "errored (on_readFile cid (Inr data) w2)
             = errored w + (if code = Some 0 then 0 else 1)"
    by (simp add: on_readFile_metrics w2_def on_exit_metrics w1_def emit_simps)
  show ?thesis
    unfolding Let_def m using e f p x s w2_def by auto
qed

text \<open>C5 at a worker that sends one result and exits with status 1.\<close>

theorem C5_exit_forwards_log_for_any_status_witness:
  "files (stored_world) (logPath ''s1'') = Some ''log''
   \<and> sample_result \<noteq> JNull
   \<and> (\<exists>w1. on_worker_message sample_result stored_world = Inr w1 \<and>
     (let w2 = on_exit ''s1'' (Some 1) w1; w3 = step (ReadFileDone ''s1'') w2 in
      effects w3 =
         [DatabasePut (Some (JStr ''https://example.org/trace'')) (Some (JStr ''s1''))
            (Some (JStr ''pc0'')) None None None,
          ConsoleLog ''done'', ReadFile (logPath ''s1''), Unlink (logPath ''s1''),
          StorePut ''s1'' ''log'']
      \<and> files w3 (logPath ''s1'') = None
      \<and> processed w3 = 0
      \<and> errored w3 = 1))"
proof -
  have a: "files (stored_world) (logPath ''s1'') = Some ''log''"
    by (simp add: stored_world_def init_world_def)
  have b: "sample_result \<noteq> JNull"
    by (simp add: sample_result_def)
  have c: "effects stored_world = []" "processed stored_world = 0" "errored stored_world = 0"
    by (simp_all add: stored_world_def init_world_def)
  from C5_exit_forwards_log_for_any_status[OF a b, of "Some 1"] a b
  show ?thesis
    by (simp add: c) (simp add: sample_result_def)
qed

text \<open>
  Claim C6: the spawn-failure handler appends the identifier once, at the tail of the pending
  queue; it schedules no dispatch and forks nothing.
\<close>

theorem C6_spawn_failure_requeues_at_tail:
  "q (on_error cid w) = q w @ [cid]
   \<and> ticks (on_error cid w) = ticks w
   \<and> effects (on_error cid w) = effects w @ [ConsoleLog ''failed to spawn, rescheduling'']"
  by (simp add: on_error_pool on_error_effects)

text \<open>
  Claim C10: when the read of the log fails, the callback only logs the error: nothing is
  unlinked, nothing is handed to \<^verbatim>\<open>Store.put\<close> and the files are as they were. When the read
  succeeds the unlink is issued first and \<^verbatim>\<open>Store.put\<close> after it.
\<close>

theorem C10_failed_read_keeps_log:
  "effects (on_readFile cid (Inl err) w)
     = effects w @ [ConsoleError ''Could not open file for store upload'']
   \<and> files (on_readFile cid (Inl err) w) = files w
   \<and> effects (on_readFile cid (Inr data) w)
     = effects w @ [Unlink (logPath cid), StorePut cid data]"
  by (simp add: on_readFile_Inl on_readFile_Inr)

end
